theory Spec2Isabelle
  imports Complex_Main "HOL-Library.Log_Nat" "HOL-Library.Sublist"
begin

section \<open>The PyGoRP AI service (src/ai-service/main.py)\<close>

text \<open>
  A shallow embedding of the request handlers of the service and of the three text
  functions they call. What the code leaves to Python is written out:
  \<^item> a \<open>str\<close> is a \<open>string\<close>, each \<open>char\<close> read as a code point below 256;
  \<^item> a \<open>float\<close> is the rational value of a finite IEEE binary64 number, and every
    float operation is the exact operation followed by rounding to nearest, ties to even;
  \<^item> a \<open>dict\<close> is an association list in insertion order;
  \<^item> an exception is a value: a function that can raise returns \<open>exc + result\<close>;
  \<^item> the clock is an input of the handlers (the rendered timestamp of the request id
    and the elapsed seconds); \<open>asyncio.sleep\<close> changes no value and is left out.
\<close>

subsection \<open>Python strings\<close>

text \<open>\<open>str.isspace\<close> on one character, for code points below 256.\<close>

definition isspace :: "char \<Rightarrow> bool" where
  "isspace c = ((of_char c :: nat) \<in> {9, 10, 11, 12, 13, 28, 29, 30, 31, 32, 133, 160})"

text \<open>
  \<open>str.lower\<close>: below 256 the upper-case letters are \<open>A\<close> to \<open>Z\<close> and the code points
  192 to 222 without the multiplication sign 215; each maps to the code point 32 above.
\<close>

definition lower_char :: "char \<Rightarrow> char" where
  "lower_char c =
     (let n = (of_char c :: nat)
      in if (65 \<le> n \<and> n \<le> 90) \<or> (192 \<le> n \<and> n \<le> 222 \<and> n \<noteq> 215)
         then char_of (n + 32) else c)"

definition lower :: "string \<Rightarrow> string" where
  "lower s = map lower_char s"

text \<open>
  \<open>str.split()\<close> with no separator: the maximal runs of non-whitespace characters, in
  order. \<open>split_acc cur s\<close> scans \<open>s\<close> with the word read so far in \<open>cur\<close>.
\<close>

fun split_acc :: "string \<Rightarrow> string \<Rightarrow> string list" where
  "split_acc cur [] = (if cur = [] then [] else [cur])"
| "split_acc cur (c # cs) =
     (if isspace c then (if cur = [] then split_acc [] cs else cur # split_acc [] cs)
      else split_acc (cur @ [c]) cs)"

definition split :: "string \<Rightarrow> string list" where
  "split s = split_acc [] s"

text \<open>\<open>sep.join(words)\<close>.\<close>

fun join :: "string \<Rightarrow> string list \<Rightarrow> string" where
  "join sep [] = []"
| "join sep [w] = w"
| "join sep (w # v # ws) = w @ sep @ join sep (v # ws)"

text \<open>\<open>w in t\<close> on strings: \<open>w\<close> starts at some position of \<open>t\<close>.\<close>

fun str_in :: "string \<Rightarrow> string \<Rightarrow> bool" where
  "str_in w [] = (w = [])"
| "str_in w (c # cs) = (prefix w (c # cs) \<or> str_in w cs)"

text \<open>The decimal digits of a natural number, as an f-string renders an \<open>int\<close>.\<close>

fun str_nat :: "nat \<Rightarrow> string" where
  "str_nat n =
     (if n < 10 then [char_of (48 + n)]
      else str_nat (n div 10) @ [char_of (48 + n mod 10)])"

declare str_nat.simps [simp del]

subsection \<open>Python floats\<close>

text \<open>
  A finite binary64 number is modelled by its rational value. \<open>fl x\<close> is the binary64
  number nearest to \<open>x\<close>, ties to even: 53 significant bits, least exponent \<open>-1022\<close>
  (below it the spacing stays \<open>2 ^ -1074\<close>, the subnormal range). Overflow is not
  modelled: no value computed by the service exceeds 100 in magnitude.
\<close>

definition pow2 :: "int \<Rightarrow> rat" where
  "pow2 k = (if 0 \<le> k then 2 ^ nat k else 1 / 2 ^ nat (- k))"

definition round_half_even :: "rat \<Rightarrow> int" where
  "round_half_even y =
     (let f = \<lfloor>y\<rfloor>; r = y - of_int f
      in if r < 1 / 2 then f else if 1 / 2 < r then f + 1 else if even f then f else f + 1)"

text \<open>\<open>ilog2 x\<close> is the exponent \<open>e\<close> with \<open>2 ^ e \<le> \<bar>x\<bar> < 2 ^ (e + 1)\<close>, for \<open>x \<noteq> 0\<close>.\<close>

definition ilog2 :: "rat \<Rightarrow> int" where
  "ilog2 x =
     (let d = bitlen (fst (quotient_of \<bar>x\<bar>)) - bitlen (snd (quotient_of \<bar>x\<bar>))
      in if pow2 d \<le> \<bar>x\<bar> then d else d - 1)"

definition fl :: "rat \<Rightarrow> rat" where
  "fl x =
     (if x = 0 then 0
      else let q = pow2 (max (ilog2 x) (- 1022) - 52)
           in of_int (round_half_even (x / q)) * q)"

text \<open>
  \<open>x + y\<close>, \<open>x - y\<close> and \<open>x * y\<close> on floats, and \<open>a / b\<close> on two \<open>int\<close>s, which Python
  rounds once from the exact quotient. \<open>fdiv\<close> is only called with \<open>b \<noteq> 0\<close>: the
  callers model \<open>ZeroDivisionError\<close> themselves.
\<close>

definition fadd :: "rat \<Rightarrow> rat \<Rightarrow> rat" where
  "fadd x y = fl (x + y)"

definition fsub :: "rat \<Rightarrow> rat \<Rightarrow> rat" where
  "fsub x y = fl (x - y)"

definition fmul :: "rat \<Rightarrow> rat \<Rightarrow> rat" where
  "fmul x y = fl (x * y)"

definition fdiv :: "nat \<Rightarrow> nat \<Rightarrow> rat" where
  "fdiv a b = fl (of_nat a / of_nat b)"

subsection \<open>Values, exceptions and the response envelope\<close>

text \<open>The values of a \<open>Dict[str, Any]\<close> that the service builds.\<close>

datatype pyval =
    PStr string
  | PInt int
  | PFloat rat
  | PList "pyval list"
  | PDict "(string \<times> pyval) list"

type_synonym pydict = "(string \<times> pyval) list"

text \<open>\<open>d.get(k)\<close>.\<close>

definition dict_get :: "pydict \<Rightarrow> string \<Rightarrow> pyval option" where
  "dict_get d k = map_of d k"

datatype exc =
    HTTPException nat string
  | ZeroDivisionError

text \<open>
  Modelled from the spec: \<open>str(e)\<close> for the \<open>HTTPException\<close> of the fastapi library,
  whose class is not part of the repository. The spec (section 8) has the error text of
  a failed response mention the detail message; the library renders the status code, a
  colon and the detail. \<open>str(ZeroDivisionError)\<close> is Python's own message.
\<close>

fun exc_str :: "exc \<Rightarrow> string" where
  "exc_str (HTTPException code detail) = str_nat code @ '': '' @ detail"
| "exc_str ZeroDivisionError = ''division by zero''"

record AnalysisResponse =
  request_id :: string
  status :: string
  result :: "pydict option"
  confidence :: "rat option"
  processing_time :: "rat option"
  error :: "string option"

subsection \<open>analyze_sentiment\<close>

definition positive_words :: "string list" where
  "positive_words = [''good'', ''great'', ''excellent'', ''amazing'', ''wonderful'', ''love'']"

definition negative_words :: "string list" where
  "negative_words = [''bad'', ''terrible'', ''awful'', ''hate'', ''worst'', ''poor'']"

text \<open>\<open>sum(1 for word in words if word in text_lower)\<close>.\<close>

definition count_in :: "string list \<Rightarrow> string \<Rightarrow> nat" where
  "count_in ws t = length (filter (\<lambda>w. str_in w t) ws)"

definition analyze_sentiment :: "string \<Rightarrow> pydict" where
  "analyze_sentiment text =
     (let text_lower = lower text;
          positive_count = count_in positive_words text_lower;
          negative_count = count_in negative_words text_lower;
          (sentiment, confidence) =
            (if positive_count > negative_count
             then (''positive'', min (fl (9 / 10)) (fadd (fl (5 / 10)) (fmul (of_nat positive_count) (fl (1 / 10)))))
             else if negative_count > positive_count
             then (''negative'', min (fl (9 / 10)) (fadd (fl (5 / 10)) (fmul (of_nat negative_count) (fl (1 / 10)))))
             else (''neutral'', fl (6 / 10)))
      in [(''sentiment'', PStr sentiment),
          (''confidence'', PFloat confidence),
          (''scores'', PDict
             [(''positive'', PFloat (fdiv positive_count (max (length (split text)) 1))),
              (''negative'', PFloat (fdiv negative_count (max (length (split text)) 1))),
              (''neutral'', PFloat (fsub 1 (fdiv (positive_count + negative_count)
                                              (max (length (split text)) 1))))])])"

subsection \<open>extract_keywords\<close>

text \<open>
  \<open>word_freq[word] = word_freq.get(word, 0) + 1\<close>: a key already in the dict keeps its
  place, a new key goes to the end.
\<close>

fun bump :: "string \<Rightarrow> (string \<times> nat) list \<Rightarrow> (string \<times> nat) list" where
  "bump word [] = [(word, 1)]"
| "bump word ((k, n) # kvs) = (if k = word then (k, n + 1) # kvs else (k, n) # bump word kvs)"

text \<open>The loop over \<open>words\<close>, with the dict \<open>word_freq\<close> built so far.\<close>

fun count_words :: "(string \<times> nat) list \<Rightarrow> string list \<Rightarrow> (string \<times> nat) list" where
  "count_words word_freq [] = word_freq"
| "count_words word_freq (word # words) =
     count_words (if length word > 3 then bump word word_freq else word_freq) words"

text \<open>
  \<open>sorted(items, key=lambda x: x[1], reverse=True)\<close>: Python reverses the list, sorts it
  stably by ascending key and reverses the outcome.
\<close>

definition sorted_reverse :: "(string \<times> nat) list \<Rightarrow> (string \<times> nat) list" where
  "sorted_reverse items = rev (sort_key snd (rev items))"

text \<open>The slice \<open>xs[:k]\<close>; a negative \<open>k\<close> counts from the end.\<close>

definition slice_to :: "int \<Rightarrow> 'a list \<Rightarrow> 'a list" where
  "slice_to k xs = (if 0 \<le> k then take (nat k) xs else take (nat (int (length xs) + k)) xs)"

text \<open>The local variable \<open>keywords\<close> of \<open>extract_keywords\<close>.\<close>

definition top_keywords :: "string \<Rightarrow> int \<Rightarrow> (string \<times> nat) list" where
  "top_keywords text max_keywords =
     (let words = split (lower text);
          word_freq = count_words [] words
      in slice_to max_keywords (sorted_reverse word_freq))"

definition extract_keywords :: "string \<Rightarrow> int \<Rightarrow> pydict" where
  "extract_keywords text max_keywords =
     [(''keywords'', PList (map (\<lambda>(word, freq). PStr word) (top_keywords text max_keywords))),
      (''frequencies'',
         PDict (map (\<lambda>(word, freq). (word, PInt (int freq))) (top_keywords text max_keywords)))]"

subsection \<open>generate_summary\<close>

text \<open>
  The dict display is evaluated in order, and its last entry divides by \<open>len(words)\<close>:
  with no words the call raises \<open>ZeroDivisionError\<close>.
\<close>

definition generate_summary :: "string \<Rightarrow> int \<Rightarrow> exc + pydict" where
  "generate_summary text max_length =
     (let words = split text;
          summary = (if int (length words) \<le> max_length then text
                     else join '' '' (slice_to max_length words) @ ''...'')
      in if length words = 0 then Inl ZeroDivisionError
         else Inr [(''summary'', PStr summary),
                   (''original_length'', PInt (int (length words))),
                   (''summary_length'', PInt (int (length (split summary)))),
                   (''compression_ratio'', PFloat (fdiv (length (split summary)) (length words)))])"

subsection \<open>The endpoints\<close>

text \<open>
  What a handler reads from the clock: \<open>timestamp\<close> is the text of
  \<open>datetime.utcnow().timestamp()\<close> in the request id, \<open>isoformat\<close> the text of
  \<open>datetime.utcnow().isoformat()\<close>, \<open>elapsed\<close> the seconds between the two later reads.
\<close>

record clock =
  timestamp :: string
  isoformat :: string
  elapsed :: rat

record TextAnalysisRequest =
  text_of :: string
  analysis_type :: string
  options :: "pydict option"

record ImageAnalysisRequest =
  image_url :: "string option"
  image_data :: "string option"
  image_analysis_type :: string

record MLModelRequest =
  model_name :: string
  input_data :: pydict
  parameters :: "pydict option"

text \<open>
  The two ways out of a handler's \<open>try\<close>: the \<open>return\<close> after the computation, and the
  \<open>except Exception\<close> clause, which also catches the \<open>HTTPException\<close> raised inside.
\<close>

definition completed :: "string \<Rightarrow> pydict \<Rightarrow> rat option \<Rightarrow> rat \<Rightarrow> AnalysisResponse" where
  "completed rid res conf dt =
     \<lparr>request_id = rid, status = ''completed'', result = Some res, confidence = conf,
      processing_time = Some dt, error = None\<rparr>"

definition failed :: "string \<Rightarrow> exc \<Rightarrow> AnalysisResponse" where
  "failed rid e =
     \<lparr>request_id = rid, status = ''failed'', result = None, confidence = None,
      processing_time = None, error = Some (exc_str e)\<rparr>"

text \<open>\<open>result.get("confidence")\<close>, stored in a field of type \<open>Optional[float]\<close>.\<close>

definition get_confidence :: "pydict \<Rightarrow> rat option" where
  "get_confidence res = (case dict_get res ''confidence'' of Some (PFloat c) \<Rightarrow> Some c | _ \<Rightarrow> None)"

definition health_check :: "clock \<Rightarrow> pydict" where
  "health_check clk =
     [(''status'', PStr ''healthy''),
      (''service'', PStr ''pygorp-ai-service''),
      (''timestamp'', PStr (isoformat clk))]"

definition analyze_text :: "clock \<Rightarrow> TextAnalysisRequest \<Rightarrow> AnalysisResponse" where
  "analyze_text clk request =
     (let rid = ''text_'' @ timestamp clk;
          outcome =
            (if analysis_type request = ''sentiment'' then Inr (analyze_sentiment (text_of request))
             else if analysis_type request = ''keywords'' then Inr (extract_keywords (text_of request) 5)
             else if analysis_type request = ''summary'' then generate_summary (text_of request) 100
             else Inl (HTTPException 400 (''Unsupported analysis type: '' @ analysis_type request)))
      in case outcome of
           Inr res \<Rightarrow> completed rid res (get_confidence res) (elapsed clk)
         | Inl e \<Rightarrow> failed rid e)"

definition image_result :: pydict where
  "image_result =
     [(''predictions'', PList
         [PDict [(''label'', PStr ''cat''), (''confidence'', PFloat (fl (85 / 100)))],
          PDict [(''label'', PStr ''animal''), (''confidence'', PFloat (fl (92 / 100)))],
          PDict [(''label'', PStr ''pet''), (''confidence'', PFloat (fl (78 / 100)))]]),
      (''dominant_color'', PStr ''#8B4513''),
      (''image_quality'', PStr ''high'')]"

definition analyze_image :: "clock \<Rightarrow> ImageAnalysisRequest \<Rightarrow> AnalysisResponse" where
  "analyze_image clk request =
     (let rid = ''image_'' @ timestamp clk;
          outcome =
            (if image_analysis_type request = ''classification'' then Inr image_result
             else Inl (HTTPException 400
                         (''Unsupported analysis type: '' @ image_analysis_type request)))
      in case outcome of
           Inr res \<Rightarrow> completed rid res (Some (fl (85 / 100))) (elapsed clk)
         | Inl e \<Rightarrow> failed rid e)"

definition regression_result :: pydict where
  "regression_result =
     [(''prediction'', PFloat (fl (425 / 10))),
      (''feature_importance'', PDict
         [(''feature1'', PFloat (fl (3 / 10))),
          (''feature2'', PFloat (fl (25 / 100))),
          (''feature3'', PFloat (fl (45 / 100)))])]"

definition classification_result :: pydict where
  "classification_result =
     [(''prediction'', PStr ''class_A''),
      (''probabilities'', PDict
         [(''class_A'', PFloat (fl (7 / 10))),
          (''class_B'', PFloat (fl (2 / 10))),
          (''class_C'', PFloat (fl (1 / 10)))])]"

definition ml_prediction :: "clock \<Rightarrow> MLModelRequest \<Rightarrow> AnalysisResponse" where
  "ml_prediction clk request =
     (let rid = ''ml_'' @ timestamp clk;
          outcome =
            (if model_name request = ''regression'' then Inr regression_result
             else if model_name request = ''classification'' then Inr classification_result
             else Inl (HTTPException 400 (''Unknown model: '' @ model_name request)))
      in case outcome of
           Inr res \<Rightarrow> completed rid res (Some (fl (8 / 10))) (elapsed clk)
         | Inl e \<Rightarrow> failed rid e)"

definition model_entry :: "string \<Rightarrow> string \<Rightarrow> string \<Rightarrow> pyval" where
  "model_entry n t d = PDict [(''name'', PStr n), (''type'', PStr t), (''description'', PStr d)]"

definition list_models :: pydict where
  "list_models =
     [(''models'', PList
         [model_entry ''sentiment_analyzer'' ''text_analysis'' ''Analyzes sentiment in text'',
          model_entry ''keyword_extractor'' ''text_analysis'' ''Extracts keywords from text'',
          model_entry ''image_classifier'' ''computer_vision'' ''Classifies images'',
          model_entry ''regression_model'' ''regression'' ''Predicts continuous values'',
          model_entry ''classification_model'' ''classification'' ''Predicts categorical values''])]"

text \<open>
  The routes of the application. The service keeps no state between requests: a run is
  the list of the responses to the requests, each with its own clock readings.
\<close>

datatype request =
    GetHealth
  | PostAnalyzeText TextAnalysisRequest
  | PostAnalyzeImage ImageAnalysisRequest
  | PostMlPredict MLModelRequest
  | GetModels

datatype response =
    Envelope AnalysisResponse
  | Json pydict

fun route :: "clock \<Rightarrow> request \<Rightarrow> response" where
  "route clk GetHealth = Json (health_check clk)"
| "route clk (PostAnalyzeText r) = Envelope (analyze_text clk r)"
| "route clk (PostAnalyzeImage r) = Envelope (analyze_image clk r)"
| "route clk (PostMlPredict r) = Envelope (ml_prediction clk r)"
| "route clk GetModels = Json list_models"

definition serve :: "(clock \<times> request) list \<Rightarrow> response list" where
  "serve rs = map (\<lambda>(clk, r). route clk r) rs"

subsection \<open>Notions of the specification\<close>

text \<open>
  The sentiment rule in words. \<open>occurrences w t\<close> is the number of positions of \<open>t\<close> at
  which \<open>w\<close> starts. \<open>occurrence_count\<close> adds the occurrences of the words of a set in
  the lower-cased text; \<open>present_count\<close> counts every word of the set once when it
  occurs at all. The label is that of the majority, and the confidence is
  \<open>min(0.9, 0.5 + 0.1 * winning count)\<close> for a decision, \<open>0.6\<close> for a tie.
\<close>

definition occurrences :: "string \<Rightarrow> string \<Rightarrow> nat" where
  "occurrences w t = length (filter (\<lambda>i. prefix w (drop i t)) [0..<Suc (length t)])"

definition occurrence_count :: "string list \<Rightarrow> string \<Rightarrow> nat" where
  "occurrence_count ws text = sum_list (map (\<lambda>w. occurrences w (lower text)) ws)"

definition present_count :: "string list \<Rightarrow> string \<Rightarrow> nat" where
  "present_count ws text = sum_list (map (\<lambda>w. min 1 (occurrences w (lower text))) ws)"

definition spec_label :: "nat \<Rightarrow> nat \<Rightarrow> string" where
  "spec_label p q = (if q < p then ''positive'' else if p < q then ''negative'' else ''neutral'')"

definition spec_confidence :: "nat \<Rightarrow> nat \<Rightarrow> rat" where
  "spec_confidence p q =
     (if p = q then fl (6 / 10)
      else min (fl (9 / 10)) (fadd (fl (5 / 10)) (fmul (fl (1 / 10)) (of_nat (max p q)))))"



section \<open>Properties\<close>

subsection \<open>Strings, exceptions and literals\<close>

lemma split_acc_Nil_iff: "split_acc cur s = [] \<longleftrightarrow> cur = [] \<and> (\<forall>c\<in>set s. isspace c)"
  by (induction s arbitrary: cur) auto

lemma split_eq_Nil_iff: "split s = [] \<longleftrightarrow> (\<forall>c\<in>set s. isspace c)"
  by (simp add: split_def split_acc_Nil_iff)

lemma str_nat_400: "str_nat 400 = ''400''"
  by code_simp

lemma fl_42_5: "fl (425 / 10) = 85 / 2"
  by code_simp

lemma serve_last: "serve (hs @ [(clk, r)]) ! length hs = route clk r"
  by (simp add: serve_def nth_append)

subsection \<open>The endpoints\<close>

text \<open>
  C5. A text-analysis request whose \<open>analysis_type\<close> is none of \<open>sentiment\<close>,
  \<open>keywords\<close>, \<open>summary\<close>, and an image-analysis request whose \<open>analysis_type\<close> is not
  \<open>classification\<close>, are answered with a \<open>failed\<close> envelope: the status is not
  \<open>completed\<close>, there is no result, no confidence and no processing time, and the error
  text is the non-empty rendering of the exception raised for the selector.
\<close>

theorem unsupported_analysis_type_fails:
  "(analysis_type treq \<notin> {''sentiment'', ''keywords'', ''summary''} \<longrightarrow>
      analyze_text clk treq =
        \<lparr>request_id = ''text_'' @ timestamp clk, status = ''failed'', result = None,
         confidence = None, processing_time = None,
         error = Some (''400: Unsupported analysis type: '' @ analysis_type treq)\<rparr> \<and>
      status (analyze_text clk treq) \<noteq> ''completed'' \<and>
      error (analyze_text clk treq) \<noteq> Some []) \<and>
   (image_analysis_type ireq \<noteq> ''classification'' \<longrightarrow>
      analyze_image clk ireq =
        \<lparr>request_id = ''image_'' @ timestamp clk, status = ''failed'', result = None,
         confidence = None, processing_time = None,
         error = Some (''400: Unsupported analysis type: '' @ image_analysis_type ireq)\<rparr> \<and>
      status (analyze_image clk ireq) \<noteq> ''completed'' \<and>
      error (analyze_image clk ireq) \<noteq> Some [])"
  by (simp add: analyze_text_def analyze_image_def failed_def Let_def str_nat_400)

theorem unsupported_analysis_type_fails_witness:
  "''translate'' \<notin> {''sentiment'', ''keywords'', ''summary''} \<and>
   ''detection'' \<noteq> ''classification'' \<and>
   analyze_text \<lparr>timestamp = ''1.5'', isoformat = ''t'', elapsed = 1\<rparr>
       \<lparr>text_of = ''hello'', analysis_type = ''translate'', options = None\<rparr> =
     \<lparr>request_id = ''text_1.5'', status = ''failed'', result = None, confidence = None,
      processing_time = None, error = Some ''400: Unsupported analysis type: translate''\<rparr> \<and>
   analyze_image \<lparr>timestamp = ''1.5'', isoformat = ''t'', elapsed = 1\<rparr>
       \<lparr>image_url = None, image_data = None, image_analysis_type = ''detection''\<rparr> =
     \<lparr>request_id = ''image_1.5'', status = ''failed'', result = None, confidence = None,
      processing_time = None, error = Some ''400: Unsupported analysis type: detection''\<rparr>"
  using unsupported_analysis_type_fails
    [of "\<lparr>text_of = ''hello'', analysis_type = ''translate'', options = None\<rparr>"
        "\<lparr>timestamp = ''1.5'', isoformat = ''t'', elapsed = 1\<rparr>"
        "\<lparr>image_url = None, image_data = None, image_analysis_type = ''detection''\<rparr>"]
  by simp

text \<open>
  C6. The response to an ML-prediction request is determined by \<open>model_name\<close> (and the
  clock readings that go into the request id and the processing time): \<open>regression\<close>
  completes with the prediction 42.5 and the three feature importances,
  \<open>classification\<close> completes with the class label and the three class probabilities,
  and any other name gives a \<open>failed\<close> envelope without result whose error text
  contains \<open>Unknown model\<close>.
\<close>

theorem ml_prediction_by_model_name:
  "(model_name r1 = model_name r2 \<longrightarrow> ml_prediction clk r1 = ml_prediction clk r2) \<and>
   (model_name r = ''regression'' \<longrightarrow>
      status (ml_prediction clk r) = ''completed'' \<and>
      result (ml_prediction clk r) = Some regression_result \<and>
      dict_get regression_result ''prediction'' = Some (PFloat (85 / 2)) \<and>
      dict_get regression_result ''feature_importance'' =
        Some (PDict [(''feature1'', PFloat (fl (3 / 10))), (''feature2'', PFloat (fl (25 / 100))),
                     (''feature3'', PFloat (fl (45 / 100)))])) \<and>
   (model_name r = ''classification'' \<longrightarrow>
      status (ml_prediction clk r) = ''completed'' \<and>
      result (ml_prediction clk r) = Some classification_result \<and>
      dict_get classification_result ''prediction'' = Some (PStr ''class_A'') \<and>
      dict_get classification_result ''probabilities'' =
        Some (PDict [(''class_A'', PFloat (fl (7 / 10))), (''class_B'', PFloat (fl (2 / 10))),
                     (''class_C'', PFloat (fl (1 / 10)))])) \<and>
   (model_name r \<noteq> ''regression'' \<and> model_name r \<noteq> ''classification'' \<longrightarrow>
      status (ml_prediction clk r) = ''failed'' \<and>
      status (ml_prediction clk r) \<noteq> ''completed'' \<and>
      result (ml_prediction clk r) = None \<and>
      error (ml_prediction clk r) = Some (''400: Unknown model: '' @ model_name r) \<and>
      sublist ''Unknown model'' (''400: Unknown model: '' @ model_name r))"
proof -
  have dep: "model_name r1 = model_name r2 \<longrightarrow> ml_prediction clk r1 = ml_prediction clk r2"
    by (simp add: ml_prediction_def)
  have reg: "model_name r = ''regression'' \<longrightarrow>
      status (ml_prediction clk r) = ''completed'' \<and>
      result (ml_prediction clk r) = Some regression_result"
    by (simp add: ml_prediction_def completed_def Let_def)
  have regv: "dict_get regression_result ''prediction'' = Some (PFloat (85 / 2)) \<and>
      dict_get regression_result ''feature_importance'' =
        Some (PDict [(''feature1'', PFloat (fl (3 / 10))), (''feature2'', PFloat (fl (25 / 100))),
                     (''feature3'', PFloat (fl (45 / 100)))])"
    unfolding regression_result_def fl_42_5 by (simp add: dict_get_def)
  have cls: "model_name r = ''classification'' \<longrightarrow>
      status (ml_prediction clk r) = ''completed'' \<and>
      result (ml_prediction clk r) = Some classification_result"
    by (simp add: ml_prediction_def completed_def Let_def)
  have clsv: "dict_get classification_result ''prediction'' = Some (PStr ''class_A'') \<and>
      dict_get classification_result ''probabilities'' =
        Some (PDict [(''class_A'', PFloat (fl (7 / 10))), (''class_B'', PFloat (fl (2 / 10))),
                     (''class_C'', PFloat (fl (1 / 10)))])"
    unfolding classification_result_def by (simp add: dict_get_def)
  have sub: "sublist ''Unknown model'' (''400: Unknown model: '' @ model_name r)"
    using sublist_appendI [of "''Unknown model''" "''400: ''" "'': '' @ model_name r"] by simp
  have unk: "model_name r \<noteq> ''regression'' \<and> model_name r \<noteq> ''classification'' \<longrightarrow>
      status (ml_prediction clk r) = ''failed'' \<and>
      status (ml_prediction clk r) \<noteq> ''completed'' \<and>
      result (ml_prediction clk r) = None \<and>
      error (ml_prediction clk r) = Some (''400: Unknown model: '' @ model_name r)"
    by (simp add: ml_prediction_def failed_def Let_def str_nat_400)
  from dep reg regv cls clsv sub unk show ?thesis by blast
qed

theorem ml_prediction_by_model_name_witness:
  "status (ml_prediction \<lparr>timestamp = ''1.5'', isoformat = ''t'', elapsed = 1\<rparr>
      \<lparr>model_name = ''regression'', input_data = [], parameters = None\<rparr>) = ''completed'' \<and>
   ml_prediction \<lparr>timestamp = ''1.5'', isoformat = ''t'', elapsed = 1\<rparr>
      \<lparr>model_name = ''regression'', input_data = [(''x'', PInt 1)], parameters = Some []\<rparr> =
   ml_prediction \<lparr>timestamp = ''1.5'', isoformat = ''t'', elapsed = 1\<rparr>
      \<lparr>model_name = ''regression'', input_data = [], parameters = None\<rparr> \<and>
   result (ml_prediction \<lparr>timestamp = ''1.5'', isoformat = ''t'', elapsed = 1\<rparr>
      \<lparr>model_name = ''classification'', input_data = [], parameters = None\<rparr>) =
     Some classification_result \<and>
   error (ml_prediction \<lparr>timestamp = ''1.5'', isoformat = ''t'', elapsed = 1\<rparr>
      \<lparr>model_name = ''unknown_model'', input_data = [], parameters = None\<rparr>) =
     Some ''400: Unknown model: unknown_model''"
  using
    ml_prediction_by_model_name
      [of "\<lparr>model_name = ''regression'', input_data = [(''x'', PInt 1)], parameters = Some []\<rparr>"
          "\<lparr>model_name = ''regression'', input_data = [], parameters = None\<rparr>"
          "\<lparr>timestamp = ''1.5'', isoformat = ''t'', elapsed = 1\<rparr>"
          "\<lparr>model_name = ''regression'', input_data = [], parameters = None\<rparr>"]
    ml_prediction_by_model_name
      [of "\<lparr>model_name = ''regression'', input_data = [], parameters = None\<rparr>"
          "\<lparr>model_name = ''regression'', input_data = [], parameters = None\<rparr>"
          "\<lparr>timestamp = ''1.5'', isoformat = ''t'', elapsed = 1\<rparr>"
          "\<lparr>model_name = ''classification'', input_data = [], parameters = None\<rparr>"]
    ml_prediction_by_model_name
      [of "\<lparr>model_name = ''regression'', input_data = [], parameters = None\<rparr>"
          "\<lparr>model_name = ''regression'', input_data = [], parameters = None\<rparr>"
          "\<lparr>timestamp = ''1.5'', isoformat = ''t'', elapsed = 1\<rparr>"
          "\<lparr>model_name = ''unknown_model'', input_data = [], parameters = None\<rparr>"]
  by simp

text \<open>
  C7. Two image-analysis requests with \<open>analysis_type = classification\<close> get the same
  result, status, confidence and error whatever their \<open>image_url\<close> and \<open>image_data\<close>
  are, also at different times: the result is the fixed list of three label/confidence
  pairs, the fixed dominant colour and the fixed quality tag.
\<close>

theorem image_classification_is_static:
  "image_analysis_type r1 = ''classification'' \<and> image_analysis_type r2 = ''classification'' \<longrightarrow>
     result (analyze_image clk1 r1) = result (analyze_image clk2 r2) \<and>
     status (analyze_image clk1 r1) = status (analyze_image clk2 r2) \<and>
     confidence (analyze_image clk1 r1) = confidence (analyze_image clk2 r2) \<and>
     error (analyze_image clk1 r1) = error (analyze_image clk2 r2) \<and>
     analyze_image clk1 r1 = analyze_image clk1 r2 \<and>
     status (analyze_image clk1 r1) = ''completed'' \<and>
     result (analyze_image clk1 r1) =
       Some [(''predictions'', PList
                [PDict [(''label'', PStr ''cat''), (''confidence'', PFloat (fl (85 / 100)))],
                 PDict [(''label'', PStr ''animal''), (''confidence'', PFloat (fl (92 / 100)))],
                 PDict [(''label'', PStr ''pet''), (''confidence'', PFloat (fl (78 / 100)))]]),
             (''dominant_color'', PStr ''#8B4513''),
             (''image_quality'', PStr ''high'')]"
  by (simp add: analyze_image_def completed_def image_result_def Let_def)

theorem image_classification_is_static_witness:
  "result (analyze_image \<lparr>timestamp = ''1.5'', isoformat = ''t'', elapsed = 1\<rparr>
      \<lparr>image_url = Some ''http://a/cat.png'', image_data = None,
       image_analysis_type = ''classification''\<rparr>) =
   result (analyze_image \<lparr>timestamp = ''2.5'', isoformat = ''u'', elapsed = 2\<rparr>
      \<lparr>image_url = None, image_data = Some ''aGVsbG8='',
       image_analysis_type = ''classification''\<rparr>) \<and>
   status (analyze_image \<lparr>timestamp = ''1.5'', isoformat = ''t'', elapsed = 1\<rparr>
      \<lparr>image_url = Some ''http://a/cat.png'', image_data = None,
       image_analysis_type = ''classification''\<rparr>) = ''completed''"
proof -
  have h: "image_analysis_type \<lparr>image_url = Some ''http://a/cat.png'', image_data = None,
              image_analysis_type = ''classification''\<rparr> = ''classification'' \<and>
           image_analysis_type \<lparr>image_url = None, image_data = Some ''aGVsbG8='',
              image_analysis_type = ''classification''\<rparr> = ''classification''"
    by simp
  from image_classification_is_static
    [of "\<lparr>image_url = Some ''http://a/cat.png'', image_data = None,
          image_analysis_type = ''classification''\<rparr>"
        "\<lparr>image_url = None, image_data = Some ''aGVsbG8='',
          image_analysis_type = ''classification''\<rparr>"
        "\<lparr>timestamp = ''1.5'', isoformat = ''t'', elapsed = 1\<rparr>"
        "\<lparr>timestamp = ''2.5'', isoformat = ''u'', elapsed = 2\<rparr>", THEN mp, OF h]
  show ?thesis by blast
qed

text \<open>
  C8. After any run of earlier requests, a \<open>GET /api/v1/models\<close> is answered with the
  same catalog: one key \<open>models\<close> holding five descriptors, each with the keys \<open>name\<close>,
  \<open>type\<close> and \<open>description\<close>.
\<close>

theorem list_models_fixed_catalog:
  "serve (history @ [(clk, GetModels)]) ! length history = Json list_models \<and>
   last (serve (history @ [(clk, GetModels)])) = Json list_models \<and>
   (\<exists>models. list_models = [(''models'', PList models)] \<and> length models = 5 \<and>
      map (\<lambda>m. case m of PDict kvs \<Rightarrow> map fst kvs | _ \<Rightarrow> []) models =
        replicate 5 [''name'', ''type'', ''description''] \<and>
      map (\<lambda>m. case m of PDict kvs \<Rightarrow> map_of kvs ''name'' | _ \<Rightarrow> None) models =
        map (\<lambda>n. Some (PStr n)) [''sentiment_analyzer'', ''keyword_extractor'', ''image_classifier'',
             ''regression_model'', ''classification_model''])"
proof -
  have a: "serve (history @ [(clk, GetModels)]) ! length history = Json list_models"
    by (simp add: serve_last)
  have b: "last (serve (history @ [(clk, GetModels)])) = Json list_models"
    by (simp add: serve_def)
  have c: "\<exists>models. list_models = [(''models'', PList models)] \<and> length models = 5 \<and>
      map (\<lambda>m. case m of PDict kvs \<Rightarrow> map fst kvs | _ \<Rightarrow> []) models =
        replicate 5 [''name'', ''type'', ''description''] \<and>
      map (\<lambda>m. case m of PDict kvs \<Rightarrow> map_of kvs ''name'' | _ \<Rightarrow> None) models =
        map (\<lambda>n. Some (PStr n)) [''sentiment_analyzer'', ''keyword_extractor'', ''image_classifier'',
             ''regression_model'', ''classification_model'']"
    by (simp add: list_models_def model_entry_def numeral_eq_Suc)
  from a b c show ?thesis by blast
qed

subsection \<open>generate_summary\<close>

text \<open>
  C9. A text has no words exactly when it is empty or all whitespace. For such a text
  \<open>generate_summary\<close> raises \<open>ZeroDivisionError\<close> at the compression ratio, for any
  length threshold, and a \<open>summary\<close> request to the text endpoint is answered with a
  \<open>failed\<close> envelope carrying that error and no result: the text is not returned.
\<close>

theorem summary_of_no_words_fails:
  "(length (split text) = 0 \<longleftrightarrow> (\<forall>c\<in>set text. isspace c)) \<and>
   (length (split text) = 0 \<longrightarrow>
      generate_summary text max_length = Inl ZeroDivisionError \<and>
      analyze_text clk \<lparr>text_of = text, analysis_type = ''summary'', options = opts\<rparr> =
        \<lparr>request_id = ''text_'' @ timestamp clk, status = ''failed'', result = None,
         confidence = None, processing_time = None, error = Some ''division by zero''\<rparr>)"
  by (simp add: split_eq_Nil_iff generate_summary_def analyze_text_def failed_def Let_def)

theorem summary_of_no_words_fails_witness:
  "length (split '' '') = 0 \<and>
   generate_summary '' '' 100 = Inl ZeroDivisionError \<and>
   status (analyze_text \<lparr>timestamp = ''1.5'', isoformat = ''t'', elapsed = 1\<rparr>
             \<lparr>text_of = '' '', analysis_type = ''summary'', options = None\<rparr>) = ''failed''"
  using summary_of_no_words_fails
    [of "'' ''" 100 "\<lparr>timestamp = ''1.5'', isoformat = ''t'', elapsed = 1\<rparr>" None]
  by (simp add: isspace_def)

subsection \<open>Rounding\<close>

lemma pow2_pos: "0 < pow2 k"
  by (simp add: pow2_def)

lemma pow2_powi: "pow2 k = 2 powi k"
  by (simp add: pow2_def power_int_def field_simps)

lemma pow2_mono: "k \<le> l \<Longrightarrow> pow2 k \<le> pow2 l"
  by (simp add: pow2_powi power_int_increasing)

lemma pow2_less_cancel: "pow2 k < pow2 l \<Longrightarrow> k < l"
  using pow2_mono [of l k] by (cases "k < l") auto

lemma pow2_diff_nat: "pow2 (int m - int n) = 2 ^ m / 2 ^ n"
  by (simp add: pow2_powi power_int_diff)

lemma round_half_even_error: "\<bar>of_int (round_half_even y) - y\<bar> \<le> 1 / 2"
proof -
  have "of_int \<lfloor>y\<rfloor> \<le> y" "y < of_int \<lfloor>y\<rfloor> + 1" by linarith+
  then show ?thesis
    by (auto simp: round_half_even_def Let_def abs_le_iff)
qed

lemma quotient_of_pos:
  assumes "0 < x"
  shows "0 < fst (quotient_of x)" "0 < snd (quotient_of x)"
    "x = of_int (fst (quotient_of x)) / of_int (snd (quotient_of x))"
proof -
  obtain a b where ab: "quotient_of x = (a, b)" by (cases "quotient_of x")
  then have b: "0 < b" by (rule quotient_of_denom_pos)
  from ab have x: "x = of_int a / of_int b" by (rule quotient_of_div)
  with assms b have "0 < a" by (simp add: zero_less_divide_iff)
  with ab b x show "0 < fst (quotient_of x)" "0 < snd (quotient_of x)"
    "x = of_int (fst (quotient_of x)) / of_int (snd (quotient_of x))" by simp_all
qed

lemma ilog2_lower: 
  assumes "x \<noteq> 0"
  shows "pow2 (ilog2 x) \<le> \<bar>x\<bar>"
proof -
  define a where "a = fst (quotient_of \<bar>x\<bar>)"
  define b where "b = snd (quotient_of \<bar>x\<bar>)"
  from assms have px: "0 < \<bar>x\<bar>" by simp
  have a: "0 < a" and b: "0 < b" and x: "\<bar>x\<bar> = of_int a / of_int b"
    using quotient_of_pos [OF px] by (simp_all add: a_def b_def)
  have la: "1 \<le> bitlen a" using a bitlen_eq_zero_iff [of a] bitlen_nonneg [of a] by linarith
  have lb: "0 \<le> bitlen b" by (rule bitlen_nonneg)
  have ba: "2 ^ nat (bitlen a - 1) \<le> a" using bitlen_bounds [OF a] by simp
  have bb: "b < 2 ^ nat (bitlen b)" using bitlen_bounds [OF b] by simp
  have "bitlen a - bitlen b - 1 = int (nat (bitlen a - 1)) - int (nat (bitlen b))"
    using la lb by linarith
  then have "pow2 (bitlen a - bitlen b - 1) = pow2 (int (nat (bitlen a - 1)) - int (nat (bitlen b)))"
    by (rule arg_cong)
  also have "\<dots> = 2 ^ nat (bitlen a - 1) / 2 ^ nat (bitlen b)" by (rule pow2_diff_nat)
  also have "\<dots> \<le> of_int a / of_int b"
  proof (rule frac_le)
    show "(0::rat) \<le> of_int a" using a by simp
    have "(of_int (2 ^ nat (bitlen a - 1)) :: rat) \<le> of_int a" using ba by (simp only: of_int_le_iff)
    then show "(2::rat) ^ nat (bitlen a - 1) \<le> of_int a" by simp
    show "(0::rat) < of_int b" using b by simp
    have "(of_int b :: rat) \<le> of_int (2 ^ nat (bitlen b))" using bb by (simp only: of_int_le_iff)
    then show "(of_int b :: rat) \<le> 2 ^ nat (bitlen b)" by simp
  qed
  finally have low: "pow2 (bitlen a - bitlen b - 1) \<le> \<bar>x\<bar>" using x by simp
  show ?thesis
    using low by (simp add: ilog2_def Let_def a_def b_def)
qed

lemma ilog2_upper:
  assumes "x \<noteq> 0"
  shows "\<bar>x\<bar> < pow2 (ilog2 x + 1)"
proof -
  define a where "a = fst (quotient_of \<bar>x\<bar>)"
  define b where "b = snd (quotient_of \<bar>x\<bar>)"
  from assms have px: "0 < \<bar>x\<bar>" by simp
  have a: "0 < a" and b: "0 < b" and x: "\<bar>x\<bar> = of_int a / of_int b"
    using quotient_of_pos [OF px] by (simp_all add: a_def b_def)
  have la: "0 \<le> bitlen a" by (rule bitlen_nonneg)
  have lb: "1 \<le> bitlen b" using b bitlen_eq_zero_iff [of b] bitlen_nonneg [of b] by linarith
  have ba: "a < 2 ^ nat (bitlen a)" using bitlen_bounds [OF a] by simp
  have bb: "2 ^ nat (bitlen b - 1) \<le> b" using bitlen_bounds [OF b] by simp
  have "of_int a / of_int b < (2::rat) ^ nat (bitlen a) / 2 ^ nat (bitlen b - 1)"
  proof (rule frac_less)
    show "(0::rat) \<le> of_int a" using a by simp
    have "(of_int a :: rat) < of_int (2 ^ nat (bitlen a))" using ba by (simp only: of_int_less_iff)
    then show "(of_int a :: rat) < 2 ^ nat (bitlen a)" by simp
    show "(0::rat) < 2 ^ nat (bitlen b - 1)" by simp
    have "(of_int (2 ^ nat (bitlen b - 1)) :: rat) \<le> of_int b" using bb by (simp only: of_int_le_iff)
    then show "(2::rat) ^ nat (bitlen b - 1) \<le> of_int b" by simp
  qed
  also have "\<dots> = pow2 (int (nat (bitlen a)) - int (nat (bitlen b - 1)))"
    by (rule pow2_diff_nat [symmetric])
  also have "int (nat (bitlen a)) - int (nat (bitlen b - 1)) = bitlen a - bitlen b + 1"
    using la lb by linarith
  finally have up: "\<bar>x\<bar> < pow2 (bitlen a - bitlen b + 1)" using x by simp
  show ?thesis
  proof (cases "pow2 (bitlen a - bitlen b) \<le> \<bar>x\<bar>")
    case True
    then show ?thesis using up by (simp add: ilog2_def Let_def a_def b_def)
  next
    case False
    then show ?thesis by (simp add: ilog2_def Let_def a_def b_def)
  qed
qed

lemma fl_error:
  assumes "\<bar>x\<bar> < 16"
  shows "\<bar>fl x - x\<bar> \<le> 1 / 2 ^ 50"
proof (cases "x = 0")
  case True
  then show ?thesis by (simp add: fl_def)
next
  case False
  define q where "q = pow2 (max (ilog2 x) (- 1022) - 52)"
  have q: "0 < q" by (simp add: q_def pow2_pos)
  have "pow2 (ilog2 x) < pow2 4" using ilog2_lower [OF False] assms by (simp add: pow2_def)
  then have "ilog2 x < 4" by (rule pow2_less_cancel)
  then have "max (ilog2 x) (- 1022) - 52 \<le> - 49" by simp
  then have "q \<le> pow2 (- 49)" unfolding q_def by (rule pow2_mono)
  then have q49: "q \<le> 1 / 2 ^ 49" by (simp add: pow2_def)
  have "fl x - x = (of_int (round_half_even (x / q)) - x / q) * q"
    using False q by (simp add: fl_def q_def [symmetric] Let_def field_simps)
  then have "\<bar>fl x - x\<bar> = \<bar>of_int (round_half_even (x / q)) - x / q\<bar> * q"
    using q by (simp add: abs_mult)
  also have "\<dots> \<le> (1 / 2) * q"
    using round_half_even_error [of "x / q"] q by (simp add: mult_right_mono)
  also have "\<dots> \<le> (1 / 2) * (1 / 2 ^ 49)" using q49 by simp
  finally show ?thesis by simp
qed

subsection \<open>analyze_sentiment\<close>

lemma str_in_sublist: "str_in w t = sublist w t"
  by (induction t) (simp_all add: sublist_Cons_right)

lemma count_in_card: "distinct ws \<Longrightarrow> count_in ws t = card {w \<in> set ws. sublist w t}"
proof -
  assume d: "distinct ws"
  have "{w \<in> set ws. sublist w t} = {w. sublist w t} \<inter> set ws" by auto
  with d show ?thesis
    by (simp add: count_in_def str_in_sublist distinct_length_filter)
qed

lemma count_in_sum: "count_in ws t = sum_list (map (\<lambda>w. if sublist w t then 1 else 0) ws)"
  by (induction ws) (simp_all add: count_in_def str_in_sublist)

lemma count_in_le: "count_in ws t \<le> length ws"
  by (simp add: count_in_def)

lemma distinct_positive_words: "distinct positive_words"
  by (simp add: positive_words_def)

lemma distinct_negative_words: "distinct negative_words"
  by (simp add: negative_words_def)

lemma length_positive_words: "length positive_words = 6"
  by (simp add: positive_words_def)

lemma length_negative_words: "length negative_words = 6"
  by (simp add: negative_words_def)

lemma conf_1: "min (fl (9 / 10)) (fadd (fl (5 / 10)) (fmul (of_nat 1) (fl (1 / 10)))) = fl (6 / 10)"
  by code_simp
lemma conf_2: "min (fl (9 / 10)) (fadd (fl (5 / 10)) (fmul (of_nat 2) (fl (1 / 10)))) = fl (7 / 10)"
  by code_simp
lemma conf_3: "min (fl (9 / 10)) (fadd (fl (5 / 10)) (fmul (of_nat 3) (fl (1 / 10)))) = fl (8 / 10)"
  by code_simp
lemma conf_4: "min (fl (9 / 10)) (fadd (fl (5 / 10)) (fmul (of_nat 4) (fl (1 / 10)))) = fl (9 / 10)"
  by code_simp
lemma conf_5: "min (fl (9 / 10)) (fadd (fl (5 / 10)) (fmul (of_nat 5) (fl (1 / 10)))) = fl (9 / 10)"
  by code_simp
lemma conf_6: "min (fl (9 / 10)) (fadd (fl (5 / 10)) (fmul (of_nat 6) (fl (1 / 10)))) = fl (9 / 10)"
  by code_simp

lemma conf_closed:
  assumes "0 < k" "k \<le> 6"
  shows "min (fl (9 / 10)) (fadd (fl (5 / 10)) (fmul (of_nat k) (fl (1 / 10)))) =
         fl (of_nat (5 + min k 4) / 10)"
proof -
  from assms have "k = 1 \<or> k = 2 \<or> k = 3 \<or> k = 4 \<or> k = 5 \<or> k = 6" by arith
  then show ?thesis
    using conf_1 conf_2 conf_3 conf_4 conf_5 conf_6 by (elim disjE) simp_all
qed

lemma sentiment_label:
  "dict_get (analyze_sentiment text) ''sentiment'' =
     Some (PStr (if count_in negative_words (lower text) < count_in positive_words (lower text) then ''positive''
                 else if count_in positive_words (lower text) < count_in negative_words (lower text) then ''negative''
                 else ''neutral''))"
  by (simp add: analyze_sentiment_def dict_get_def Let_def)

lemma sentiment_confidence:
  "dict_get (analyze_sentiment text) ''confidence'' =
     Some (PFloat (if count_in negative_words (lower text) < count_in positive_words (lower text)
                   then min (fl (9 / 10)) (fadd (fl (5 / 10)) (fmul (of_nat (count_in positive_words (lower text))) (fl (1 / 10))))
                 else if count_in positive_words (lower text) < count_in negative_words (lower text)
                   then min (fl (9 / 10)) (fadd (fl (5 / 10)) (fmul (of_nat (count_in negative_words (lower text))) (fl (1 / 10))))
                 else fl (6 / 10)))"
  by (simp add: analyze_sentiment_def dict_get_def Let_def)


lemma ex1: "count_in positive_words (lower ''I love this, it is great'') = 2"
  by code_simp
lemma ex2: "count_in negative_words (lower ''I love this, it is great'') = 0"
  by code_simp
lemma ex3: "length (split ''good badterrible awfulhate'') = 3"
  by code_simp

lemma fmul_commute: "fmul x y = fmul y x"
  by (simp add: fmul_def mult.commute)

lemma sentiment_scores:
  "dict_get (analyze_sentiment text) ''scores'' =
     Some (PDict
       [(''positive'', PFloat (fdiv (count_in positive_words (lower text)) (max (length (split text)) 1))),
        (''negative'', PFloat (fdiv (count_in negative_words (lower text)) (max (length (split text)) 1))),
        (''neutral'', PFloat (fsub 1 (fdiv (count_in positive_words (lower text) + count_in negative_words (lower text))
                                        (max (length (split text)) 1))))])"
  by (simp add: analyze_sentiment_def dict_get_def Let_def split: prod.splits)

text \<open>Lower-casing a text a second time changes nothing, and it keeps the whitespace.\<close>

lemma of_char_less: "(of_char c :: nat) < 256"
proof -
  have "(of_char c :: nat) mod 256 = of_char c" by (rule of_char_mod_256)
  moreover have "(of_char c :: nat) mod 256 < 256" by simp
  ultimately show ?thesis by simp
qed

lemma lower_char_idem: "lower_char (lower_char c) = lower_char c"
proof -
  define n where "n = (of_char c :: nat)"
  show ?thesis
  proof (cases "(65 \<le> n \<and> n \<le> 90) \<or> (192 \<le> n \<and> n \<le> 222 \<and> n \<noteq> 215)")
    case True
    then have l: "lower_char c = char_of (n + 32)" unfolding lower_char_def Let_def n_def by auto
    from True have "(n + 32) mod 256 = n + 32" by auto
    then have m: "(of_char (char_of (n + 32)) :: nat) = n + 32" by (simp only: of_char_of)
    have "lower_char (char_of (n + 32)) = char_of (n + 32)"
      unfolding lower_char_def m Let_def using True by auto
    with l show ?thesis by simp
  next
    case False
    then have "lower_char c = c" unfolding lower_char_def Let_def n_def by auto
    then show ?thesis by simp
  qed
qed

lemma lower_idem: "lower (lower s) = lower s"
  by (simp add: lower_def lower_char_idem)


lemma isspace_lower_char: "isspace (lower_char c) = isspace c"
proof -
  define n where "n = (of_char c :: nat)"
  show ?thesis
  proof (cases "(65 \<le> n \<and> n \<le> 90) \<or> (192 \<le> n \<and> n \<le> 222 \<and> n \<noteq> 215)")
    case True
    then have l: "lower_char c = char_of (n + 32)" unfolding lower_char_def Let_def n_def by auto
    from True have "(n + 32) mod 256 = n + 32" by auto
    then have m: "(of_char (char_of (n + 32)) :: nat) = n + 32" by (simp only: of_char_of)
    have "\<not> isspace (char_of (n + 32))" unfolding isspace_def m using True by auto
    moreover have "\<not> isspace c" unfolding isspace_def n_def [symmetric] using True by auto
    ultimately show ?thesis using l by simp
  next
    case False
    then have "lower_char c = c" unfolding lower_char_def Let_def n_def by auto
    then show ?thesis by simp
  qed
qed

lemma split_acc_lower:
  "split_acc (map lower_char cur) (map lower_char s) = map (map lower_char) (split_acc cur s)"
proof (induction s arbitrary: cur)
  case Nil
  show ?case by simp
next
  case (Cons a s)
  show ?case
    using Cons.IH [of "[]"] Cons.IH [of "cur @ [a]"]
    by (simp add: isspace_lower_char)
qed

lemma length_split_lower: "length (split (lower s)) = length (split s)"
  using split_acc_lower [of "[]" s] by (simp add: split_def lower_def)

lemma analyze_sentiment_lower: "analyze_sentiment (lower s) = analyze_sentiment s"
  by (simp add: analyze_sentiment_def lower_idem length_split_lower)

lemma ex_rep: "count_in positive_words (lower ''Good good GOOD'') = 1"
  by code_simp

lemma ex_tok: "length (split ''goodgreatbadawful'') = 1"
  by code_simp
lemma ex_tok_p: "count_in positive_words (lower ''goodgreatbadawful'') = 2"
  by code_simp
lemma ex_tok_n: "count_in negative_words (lower ''goodgreatbadawful'') = 2"
  by code_simp
lemma fl_2: "fdiv 2 (Suc 0) = 2"
  by code_simp
lemma fl_m3: "fsub 1 (fdiv 4 (Suc 0)) = - 3"
  by code_simp

lemma conf_bounds:
  "0 \<le> fl (6 / 10) \<and> fl (6 / 10) \<le> fl (9 / 10) \<and> 0 \<le> fl (7 / 10) \<and> fl (7 / 10) \<le> fl (9 / 10) \<and>
   0 \<le> fl (8 / 10) \<and> fl (8 / 10) \<le> fl (9 / 10) \<and> 0 \<le> fl (9 / 10)"
  by code_simp

lemma conf_cases:
  assumes "0 < k" "k \<le> 6"
  shows "min (fl (9 / 10)) (fadd (fl (5 / 10)) (fmul (of_nat k) (fl (1 / 10))))
           \<in> {fl (6 / 10), fl (7 / 10), fl (8 / 10), fl (9 / 10)}"
proof -
  from assms have "k = 1 \<or> k = 2 \<or> k = 3 \<or> k = 4 \<or> k = 5 \<or> k = 6" by arith
  then show ?thesis
    using conf_1 conf_2 conf_3 conf_4 conf_5 conf_6 by (elim disjE) simp_all
qed

lemma sentiment_confidence_range:
  "\<exists>conf. dict_get (analyze_sentiment text) ''confidence'' = Some (PFloat conf) \<and>
          conf \<in> {fl (6 / 10), fl (7 / 10), fl (8 / 10), fl (9 / 10)} \<and>
          0 \<le> conf \<and> conf \<le> fl (9 / 10)"
proof -
  let ?p = "count_in positive_words (lower text)"
  let ?q = "count_in negative_words (lower text)"
  let ?c = "if ?q < ?p
              then min (fl (9 / 10)) (fadd (fl (5 / 10)) (fmul (of_nat ?p) (fl (1 / 10))))
            else if ?p < ?q
              then min (fl (9 / 10)) (fadd (fl (5 / 10)) (fmul (of_nat ?q) (fl (1 / 10))))
            else fl (6 / 10)"
  have p: "?p \<le> 6" using count_in_le [of positive_words "lower text"]
    by (simp add: length_positive_words)
  have q: "?q \<le> 6" using count_in_le [of negative_words "lower text"]
    by (simp add: length_negative_words)
  have mem: "?c \<in> {fl (6 / 10), fl (7 / 10), fl (8 / 10), fl (9 / 10)}"
  proof (cases "?q < ?p")
    case True
    then have "0 < ?p" by simp
    from conf_cases [OF this p] True show ?thesis by simp
  next
    case False
    show ?thesis
    proof (cases "?p < ?q")
      case True
      then have "0 < ?q" by simp
      from conf_cases [OF this q] True \<open>\<not> ?q < ?p\<close> show ?thesis by simp
    next
      case False
      with \<open>\<not> ?q < ?p\<close> show ?thesis by simp
    qed
  qed
  then have "0 \<le> ?c \<and> ?c \<le> fl (9 / 10)"
    using conf_bounds by (elim insertE) simp_all
  with mem sentiment_confidence [of "text"] show ?thesis by blast
qed

lemma scores_sum_tolerance:
  fixes p q n :: nat
  assumes p: "p \<le> 6" and q: "q \<le> 6" and n: "1 \<le> n"
  shows "\<bar>fdiv p n + fdiv q n + fsub 1 (fdiv (p + q) n) - 1\<bar> \<le> 1 / 2 ^ 48"
proof -
  define x1 :: rat where "x1 = of_nat p / of_nat n"
  define x2 :: rat where "x2 = of_nat q / of_nat n"
  define x3 :: rat where "x3 = of_nat (p + q) / of_nat n"
  define s where "s = fl x3"
  have n0: "(0::rat) < of_nat n" "(1::rat) \<le> of_nat n" using n by simp_all
  have b1: "0 \<le> x1" "x1 \<le> 6"
  proof -
    show "0 \<le> x1" by (simp add: x1_def)
    have "x1 \<le> of_nat p" unfolding x1_def using n0 by (simp add: divide_le_eq mult_le_cancel_left1)
    also have "\<dots> \<le> 6" using p by simp
    finally show "x1 \<le> 6" .
  qed
  have b2: "0 \<le> x2" "x2 \<le> 6"
  proof -
    show "0 \<le> x2" by (simp add: x2_def)
    have "x2 \<le> of_nat q" unfolding x2_def using n0 by (simp add: divide_le_eq mult_le_cancel_left1)
    also have "\<dots> \<le> 6" using q by simp
    finally show "x2 \<le> 6" .
  qed
  have x3: "x3 = x1 + x2" by (simp add: x1_def x2_def x3_def add_divide_distrib)
  have e1: "\<bar>fl x1 - x1\<bar> \<le> 1 / 2 ^ 50" using b1 by (intro fl_error) simp
  have e2: "\<bar>fl x2 - x2\<bar> \<le> 1 / 2 ^ 50" using b2 by (intro fl_error) simp
  have e3: "\<bar>s - x3\<bar> \<le> 1 / 2 ^ 50" unfolding s_def using b1 b2 x3 by (intro fl_error) simp
  have "\<bar>s\<bar> \<le> \<bar>s - x3\<bar> + \<bar>x3\<bar>" by simp
  also have "\<dots> \<le> 1 / 2 ^ 50 + 12" using e3 b1 b2 x3 by simp
  finally have "\<bar>1 - s\<bar> < 16" by simp
  then have e4: "\<bar>fl (1 - s) - (1 - s)\<bar> \<le> 1 / 2 ^ 50" by (rule fl_error)
  have f1: "fdiv p n = fl x1" by (simp only: fdiv_def x1_def)
  have f2: "fdiv q n = fl x2" by (simp only: fdiv_def x2_def)
  have f3: "fsub 1 (fdiv (p + q) n) = fl (1 - s)" by (simp only: fdiv_def fsub_def x3_def s_def)
  have "fdiv p n + fdiv q n + fsub 1 (fdiv (p + q) n) - 1 =
        (fl x1 - x1) + (fl x2 - x2) + (fl (1 - s) - (1 - s)) - (s - x3)"
    unfolding f1 f2 f3 x3 by simp
  also have "\<bar>\<dots>\<bar> \<le> 1 / 2 ^ 50 + 1 / 2 ^ 50 + 1 / 2 ^ 50 + 1 / 2 ^ 50"
    using e1 e2 e3 e4 by linarith
  finally show ?thesis by simp
qed

lemma cx_p: "count_in positive_words (lower ''good badterrible awfulhate'') = 1"
  by code_simp
lemma cx_n: "count_in negative_words (lower ''good badterrible awfulhate'') = 4"
  by code_simp
lemma cx_a: "fdiv 1 3 = 6004799503160661 / 18014398509481984"
  by code_simp
lemma cx_b: "fdiv 4 3 = 6004799503160661 / 4503599627370496"
  by code_simp
lemma cx_c: "fsub 1 (fdiv 5 3) = - (3002399751580331 / 4503599627370496)"
  by code_simp
lemma cx_sum: "fadd (fadd (6004799503160661 / 18014398509481984) (6004799503160661 / 4503599627370496))
       (- (3002399751580331 / 4503599627370496)) = 4503599627370495 / 4503599627370496"
  by code_simp

text \<open>
  C3, as stated, fails. The text \<open>good badterrible awfulhate\<close> has three tokens, one
  positive and four negative words: its score fractions are the doubles nearest to 1/3,
  4/3 and \<open>1 - 5/3\<close>, whose sum is not 1, neither exactly nor when added as floats.
\<close>

theorem sentiment_scores_sum_counterexample:
  "dict_get (analyze_sentiment ''good badterrible awfulhate'') ''scores'' =
     Some (PDict [(''positive'', PFloat (6004799503160661 / 18014398509481984)),
                  (''negative'', PFloat (6004799503160661 / 4503599627370496)),
                  (''neutral'', PFloat (- (3002399751580331 / 4503599627370496)))]) \<and>
   (6004799503160661 / 18014398509481984 + 6004799503160661 / 4503599627370496
      + - (3002399751580331 / 4503599627370496) :: rat) \<noteq> 1 \<and>
   fadd (fadd (6004799503160661 / 18014398509481984) (6004799503160661 / 4503599627370496))
       (- (3002399751580331 / 4503599627370496)) \<noteq> 1"
proof -
  have a: "dict_get (analyze_sentiment ''good badterrible awfulhate'') ''scores'' =
     Some (PDict [(''positive'', PFloat (6004799503160661 / 18014398509481984)),
                  (''negative'', PFloat (6004799503160661 / 4503599627370496)),
                  (''neutral'', PFloat (- (3002399751580331 / 4503599627370496)))])"
    using cx_a cx_b cx_c by (simp add: sentiment_scores cx_p cx_n ex3)
  have b: "(6004799503160661 / 18014398509481984 + 6004799503160661 / 4503599627370496
      + - (3002399751580331 / 4503599627370496) :: rat) \<noteq> 1"
    by simp
  have c: "fadd (fadd (6004799503160661 / 18014398509481984) (6004799503160661 / 4503599627370496))
       (- (3002399751580331 / 4503599627370496)) \<noteq> 1"
    unfolding cx_sum by simp
  from a b c show ?thesis by blast
qed

text \<open>
  C3, amended. For every text the confidence is one of the doubles 0.6, 0.7, 0.8 and 0.9,
  so it lies between 0 and 0.9. The score fractions are the positive count, the negative
  count and 1 minus their sum, each over \<open>max(word count, 1)\<close> and each rounded to a
  double; their sum is 1 within floating tolerance: it differs from 1 by at most
  \<open>2 ^ -48\<close>.
\<close>

theorem sentiment_confidence_and_scores:
  "\<exists>conf a b c.
     dict_get (analyze_sentiment text) ''confidence'' = Some (PFloat conf) \<and>
     conf \<in> {fl (6 / 10), fl (7 / 10), fl (8 / 10), fl (9 / 10)} \<and> 0 \<le> conf \<and> conf \<le> fl (9 / 10) \<and>
     dict_get (analyze_sentiment text) ''scores'' =
       Some (PDict [(''positive'', PFloat a), (''negative'', PFloat b), (''neutral'', PFloat c)]) \<and>
     a = fl (of_nat (count_in positive_words (lower text)) / of_nat (max (length (split text)) 1)) \<and>
     b = fl (of_nat (count_in negative_words (lower text)) / of_nat (max (length (split text)) 1)) \<and>
     c = fl (1 - fl (of_nat (count_in positive_words (lower text) + count_in negative_words (lower text))
                      / of_nat (max (length (split text)) 1))) \<and>
     \<bar>a + b + c - 1\<bar> \<le> 1 / 2 ^ 48"
proof -
  let ?p = "count_in positive_words (lower text)"
  let ?q = "count_in negative_words (lower text)"
  let ?n = "max (length (split text)) 1"
  have p: "?p \<le> 6" using count_in_le [of positive_words "lower text"]
    by (simp add: length_positive_words)
  have q: "?q \<le> 6" using count_in_le [of negative_words "lower text"]
    by (simp add: length_negative_words)
  have n: "1 \<le> ?n" by simp
  have tol: "\<bar>fdiv ?p ?n + fdiv ?q ?n + fsub 1 (fdiv (?p + ?q) ?n) - 1\<bar> \<le> 1 / 2 ^ 48"
    using p q n by (rule scores_sum_tolerance)
  obtain conf where conf: "dict_get (analyze_sentiment text) ''confidence'' = Some (PFloat conf)"
    "conf \<in> {fl (6 / 10), fl (7 / 10), fl (8 / 10), fl (9 / 10)}" "0 \<le> conf" "conf \<le> fl (9 / 10)"
    using sentiment_confidence_range [of "text"] by blast
  have fd: "fdiv ?p ?n = fl (of_nat ?p / of_nat ?n)" "fdiv ?q ?n = fl (of_nat ?q / of_nat ?n)"
    "fsub 1 (fdiv (?p + ?q) ?n) = fl (1 - fl (of_nat (?p + ?q) / of_nat ?n))"
    by (simp_all only: fdiv_def fsub_def)
  show ?thesis
    apply (rule exI [of _ conf])
    apply (rule exI [of _ "fdiv ?p ?n"])
    apply (rule exI [of _ "fdiv ?q ?n"])
    apply (rule exI [of _ "fsub 1 (fdiv (?p + ?q) ?n)"])
    using conf tol fd sentiment_scores [of "text"] apply (intro conjI)
            apply assumption+
    done
qed

subsection \<open>extract_keywords\<close>



















lemma length_sorted_reverse: "length (sorted_reverse xs) = length xs"
  by (simp add: sorted_reverse_def)





lemma split_acc_tokens:
  assumes "\<forall>c\<in>set cur. \<not> isspace c" "t \<in> set (split_acc cur s)"
  shows "t \<noteq> [] \<and> (\<forall>c\<in>set t. \<not> isspace c) \<and> set t \<subseteq> set cur \<union> set s"
  using assms
proof (induction s arbitrary: cur)
  case Nil
  then show ?case by (auto split: if_splits)
next
  case (Cons a s)
  show ?case
  proof (cases "isspace a")
    case True
    from Cons.prems(2) True have "t = cur \<and> cur \<noteq> [] \<or> t \<in> set (split_acc [] s)"
      by (auto split: if_splits)
    then show ?thesis
    proof
      assume "t = cur \<and> cur \<noteq> []"
      with Cons.prems(1) show ?thesis by auto
    next
      assume "t \<in> set (split_acc [] s)"
      with Cons.IH [of "[]"] have "t \<noteq> [] \<and> (\<forall>c\<in>set t. \<not> isspace c) \<and> set t \<subseteq> set [] \<union> set s"
        by simp
      then show ?thesis by auto
    qed
  next
    case False
    with Cons.prems(2) have "t \<in> set (split_acc (cur @ [a]) s)" by simp
    moreover have "\<forall>c\<in>set (cur @ [a]). \<not> isspace c" using Cons.prems(1) False by simp
    ultimately have "t \<noteq> [] \<and> (\<forall>c\<in>set t. \<not> isspace c) \<and> set t \<subseteq> set (cur @ [a]) \<union> set s"
      by (rule Cons.IH [rotated])
    then show ?thesis by auto
  qed
qed

lemma split_tokens:
  "t \<in> set (split s) \<Longrightarrow> t \<noteq> [] \<and> (\<forall>c\<in>set t. \<not> isspace c) \<and> set t \<subseteq> set s"
  using split_acc_tokens [of "[]" t s] by (simp add: split_def)







subsection \<open>generate_summary, with words\<close>

lemma isspace_space: "isspace CHR '' ''"
  by (simp add: isspace_def)

lemma not_isspace_dot: "\<not> isspace CHR ''.''"
  by (simp add: isspace_def)

lemma split_acc_word:
  "\<forall>c\<in>set t. \<not> isspace c \<Longrightarrow> split_acc cur (t @ s) = split_acc (cur @ t) s"
  by (induction t arbitrary: cur) simp_all

lemma split_acc_last_word:
  assumes "\<forall>c\<in>set t. \<not> isspace c" "t \<noteq> []"
  shows "split_acc [] t = [t]"
  using split_acc_word [OF assms(1), of "[]" "[]"] assms(2) by simp

lemma length_split_join:
  assumes "ws \<noteq> []" "\<forall>t\<in>set ws. t \<noteq> [] \<and> (\<forall>c\<in>set t. \<not> isspace c)"
    and "\<forall>c\<in>set sfx. \<not> isspace c"
  shows "length (split_acc [] (join '' '' ws @ sfx)) = length ws"
  using assms(1,2)
proof (induction ws rule: induct_list012)
  case 1
  then show ?case by simp
next
  case (2 w)
  then have "\<forall>c\<in>set (w @ sfx). \<not> isspace c" "w @ sfx \<noteq> []" using assms(3) by auto
  then have "split_acc [] (w @ sfx) = [w @ sfx]" by (rule split_acc_last_word)
  then show ?case by simp
next
  case (3 w v ws)
  have w: "\<forall>c\<in>set w. \<not> isspace c" "w \<noteq> []" using 3(4) by auto
  have "split_acc [] (join '' '' (w # v # ws) @ sfx) =
        split_acc w (CHR '' '' # join '' '' (v # ws) @ sfx)"
    using split_acc_word [OF w(1), of "[]"] by simp
  also have "\<dots> = w # split_acc [] (join '' '' (v # ws) @ sfx)"
    using w(2) by (simp add: isspace_space)
  finally show ?case using 3(2,4) by simp
qed

lemma fl_1: "fl 1 = 1"
  by code_simp

lemma fdiv_same: "0 < n \<Longrightarrow> fdiv n n = 1"
  by (simp add: fdiv_def fl_1)

lemma fdiv_less_1:
  assumes "100 < n"
  shows "fdiv 100 n < 1"
proof -
  have "101 \<le> n" using assms by simp
  then have "(of_nat 101 :: rat) \<le> of_nat n" by (simp only: of_nat_le_iff)
  then have n: "(101 :: rat) \<le> of_nat n" by simp
  then have x: "(100 :: rat) / of_nat n \<le> 100 / 101"
    by (intro divide_left_mono) simp_all
  have "0 \<le> (100 :: rat) / of_nat n" by simp
  with x have "\<bar>(100 :: rat) / of_nat n\<bar> < 16" by simp
  then have "\<bar>fl (100 / of_nat n) - 100 / of_nat n\<bar> \<le> 1 / 2 ^ 50" by (rule fl_error)
  then have "fl (100 / of_nat n) \<le> 100 / of_nat n + 1 / 2 ^ 50" by linarith
  also have "\<dots> \<le> 100 / 101 + 1 / 2 ^ 50" using x by simp
  also have "\<dots> < 1" by simp
  finally show ?thesis by (simp add: fdiv_def)
qed


text \<open>
  With the threshold 100 of the endpoint: a text of 1 to 100 words is returned as it is,
  with both word counts equal and the ratio 1; a longer text gives its first 100 words
  joined by single spaces and followed by three dots, the summary word count 100 and a
  ratio below 1.
\<close>

lemma generate_summary_short:
  assumes "1 \<le> length (split str)" "length (split str) \<le> 100"
  shows "generate_summary str 100 =
     Inr [(''summary'', PStr str),
          (''original_length'', PInt (int (length (split str)))),
          (''summary_length'', PInt (int (length (split str)))),
          (''compression_ratio'', PFloat 1)]"
proof -
  from assms(1) have ne: "split str \<noteq> []" by auto
  with assms(2) show ?thesis by (simp add: generate_summary_def Let_def fdiv_same)
qed

lemma generate_summary_long:
  assumes "100 < length (split str)"
  shows "generate_summary str 100 =
     Inr [(''summary'', PStr (join '' '' (take 100 (split str)) @ ''...'')),
          (''original_length'', PInt (int (length (split str)))),
          (''summary_length'', PInt 100),
          (''compression_ratio'', PFloat (fdiv 100 (length (split str))))]"
    and "fdiv 100 (length (split str)) < 1"
proof -
  let ?ws = "take 100 (split str)"
  have ne: "?ws \<noteq> []" using assms by auto
  have tok: "\<forall>t\<in>set ?ws. t \<noteq> [] \<and> (\<forall>c\<in>set t. \<not> isspace c)"
    using split_tokens [of _ str] by (blast dest: in_set_takeD)
  have dots: "\<forall>c\<in>set ''...''. \<not> isspace c" by (simp add: not_isspace_dot)
  have "length (split_acc [] (join '' '' ?ws @ ''...'')) = length ?ws"
    using ne tok dots by (rule length_split_join)
  then have "length (split (join '' '' ?ws @ ''...'')) = length ?ws"
    by (simp only: split_def)
  also have "\<dots> = 100" using assms by simp
  finally have len: "length (split (join '' '' ?ws @ ''...'')) = 100" .
  have sl: "slice_to 100 (split str) = ?ws" by (simp add: slice_to_def)
  have ne2: "split str \<noteq> []" using assms by auto
  show "generate_summary str 100 =
     Inr [(''summary'', PStr (join '' '' (take 100 (split str)) @ ''...'')),
          (''original_length'', PInt (int (length (split str)))),
          (''summary_length'', PInt 100),
          (''compression_ratio'', PFloat (fdiv 100 (length (split str))))]"
    using assms ne2 by (simp add: generate_summary_def Let_def sl len)
  show "fdiv 100 (length (split str)) < 1" using assms by (rule fdiv_less_1)
qed

lemma split_empty: "split [] = []"
  by (simp add: split_def)

text \<open>
  C2 at the empty text. The word count 0 is within the threshold, yet \<open>generate_summary\<close>
  does not return the text: it raises \<open>ZeroDivisionError\<close>, and the endpoint answers a
  \<open>summary\<close> request with a \<open>failed\<close> envelope without result.
\<close>

theorem generate_summary_empty_text:
  "int (length (split [])) \<le> 100 \<and>
   generate_summary [] 100 = Inl ZeroDivisionError \<and>
   status (analyze_text clk \<lparr>text_of = [], analysis_type = ''summary'', options = opts\<rparr>) = ''failed'' \<and>
   result (analyze_text clk \<lparr>text_of = [], analysis_type = ''summary'', options = opts\<rparr>) = None"
  by (simp add: split_empty generate_summary_def analyze_text_def failed_def Let_def)

subsection \<open>analyze_sentiment, counting\<close>

lemma occurrences_pos_iff: "0 < occurrences w t \<longleftrightarrow> sublist w t"
proof
  assume "0 < occurrences w t"
  then have "filter (\<lambda>i. prefix w (drop i t)) [0..<Suc (length t)] \<noteq> []"
    unfolding occurrences_def length_greater_0_conv .
  then obtain i where "prefix w (drop i t)"
    unfolding filter_empty_conv by blast
  then obtain ss where "drop i t = w @ ss" by (auto simp: prefix_def)
  then have "t = take i t @ w @ ss" by (metis append_take_drop_id)
  then show "sublist w t" unfolding sublist_def by blast
next
  assume "sublist w t"
  then obtain ps ss where t: "t = ps @ w @ ss" unfolding sublist_def by blast
  then have "prefix w (drop (length ps) t)" by simp
  moreover have "length ps \<in> set [0..<Suc (length t)]" using t by simp
  ultimately have "filter (\<lambda>i. prefix w (drop i t)) [0..<Suc (length t)] \<noteq> []"
    unfolding filter_empty_conv by blast
  then show "0 < occurrences w t" unfolding occurrences_def length_greater_0_conv .
qed

lemma min_occurrences: "min 1 (occurrences w t) = (if sublist w t then 1 else 0)"
  using occurrences_pos_iff [of w t] by (cases "occurrences w t") auto

lemma count_in_present: "count_in ws (lower s) = present_count ws s"
  unfolding present_count_def count_in_sum min_occurrences by (rule refl)

lemma cx1_p: "occurrence_count positive_words ''good good bad'' = 2"
  by code_simp
lemma cx1_n: "occurrence_count negative_words ''good good bad'' = 1"
  by code_simp
lemma cx1_cp: "count_in positive_words (lower ''good good bad'') = 1"
  by code_simp
lemma cx1_cn: "count_in negative_words (lower ''good good bad'') = 1"
  by code_simp
lemma up_p: "count_in positive_words (lower ''I LOVE this, it is GREAT'') = 2"
  by code_simp
lemma up_n: "count_in negative_words (lower ''I LOVE this, it is GREAT'') = 0"
  by code_simp
lemma up_raw: "count_in positive_words ''I LOVE this, it is GREAT'' = 0"
  by code_simp
lemma g3_p: "count_in positive_words (lower ''GOOD GOOD GOOD'') = 1"
  by code_simp
lemma g3_n: "count_in negative_words (lower ''GOOD GOOD GOOD'') = 0"
  by code_simp
lemma g3_raw: "count_in positive_words ''GOOD GOOD GOOD'' = 0"
  by code_simp
lemma g3_len: "length (split ''GOOD GOOD GOOD'') = 3"
  by code_simp
lemma g3_occ: "occurrences ''good'' (lower ''GOOD GOOD GOOD'') = 3"
  by code_simp
lemma g3_neu: "fsub 1 (fdiv 1 3) = 3002399751580331 / 4503599627370496"
  by code_simp
lemma fdiv_0_3: "fdiv 0 3 = 0"
  by code_simp
lemma conf_67: "fl (6 / 10) \<noteq> fl (7 / 10)"
  by code_simp
lemma spec_conf_21: "spec_confidence 2 1 = fl (7 / 10)"
  by code_simp

lemma present_count_sum:
  "present_count ws s = sum_list (map (\<lambda>w. if sublist w (lower s) then 1 else 0) ws)"
  unfolding present_count_def min_occurrences by (rule refl)

lemma present_count_le: "present_count ws s \<le> length ws"
  using count_in_le [of ws "lower s"] by (simp only: count_in_present)

lemma get_confidence_sentiment:
  "get_confidence (analyze_sentiment s) =
     Some (spec_confidence (present_count positive_words s) (present_count negative_words s))"
proof -
  have "dict_get (analyze_sentiment s) ''confidence'' =
     Some (PFloat (spec_confidence (count_in positive_words (lower s)) (count_in negative_words (lower s))))"
    by (auto simp add: sentiment_confidence spec_confidence_def fmul_commute max_def)
  then show ?thesis by (simp add: get_confidence_def count_in_present)
qed

text \<open>
  C1, as stated, fails. In \<open>good good bad\<close> the positive words occur twice and the
  negative words once, which by the stated rule is \<open>positive\<close> with the confidence 0.7;
  \<open>analyze_sentiment\<close> counts \<open>good\<close> once, finds a tie and answers \<open>neutral\<close> with 0.6.
\<close>

theorem sentiment_occurrence_count_counterexample:
  "occurrence_count positive_words ''good good bad'' = 2 \<and>
   occurrence_count negative_words ''good good bad'' = 1 \<and>
   dict_get (analyze_sentiment ''good good bad'') ''sentiment'' = Some (PStr ''neutral'') \<and>
   dict_get (analyze_sentiment ''good good bad'') ''sentiment'' \<noteq>
     Some (PStr (spec_label (occurrence_count positive_words ''good good bad'')
                            (occurrence_count negative_words ''good good bad''))) \<and>
   dict_get (analyze_sentiment ''good good bad'') ''confidence'' = Some (PFloat (fl (6 / 10))) \<and>
   dict_get (analyze_sentiment ''good good bad'') ''confidence'' \<noteq>
     Some (PFloat (spec_confidence (occurrence_count positive_words ''good good bad'')
                                   (occurrence_count negative_words ''good good bad'')))"
proof -
  have a: "dict_get (analyze_sentiment ''good good bad'') ''sentiment'' = Some (PStr ''neutral'')"
    by (simp add: sentiment_label cx1_cp cx1_cn)
  have b: "dict_get (analyze_sentiment ''good good bad'') ''confidence'' = Some (PFloat (fl (6 / 10)))"
    by (simp add: sentiment_confidence cx1_cp cx1_cn)
  have c: "spec_label 2 1 = ''positive''" by (simp add: spec_label_def)
  show ?thesis
    unfolding cx1_p cx1_n a b c spec_conf_21 using conf_67 by simp
qed

text \<open>
  C1, amended. For every text, \<open>analyze_sentiment\<close> counts the words of the positive set
  and of the negative set that occur at least once in the lower-cased text, each word
  once however often it occurs. It labels the text by the majority of the two counts
  (\<open>neutral\<close> on a tie), with the confidence \<open>min(0.9, 0.5 + 0.1 * winning count)\<close> in
  float arithmetic, \<open>0.6\<close> on a tie. The case of the letters has no effect, and the text
  endpoint returns this result and confidence in a \<open>completed\<close> envelope. The texts
  \<open>I love this, it is great\<close> and \<open>I LOVE this, it is GREAT\<close> are \<open>positive\<close> with the
  confidence that the literal \<open>0.7\<close> denotes; without lower-casing the second has no
  match.
\<close>

theorem analyze_sentiment_present_count:
  "dict_get (analyze_sentiment text) ''sentiment'' =
     Some (PStr (spec_label (present_count positive_words text) (present_count negative_words text))) \<and>
   dict_get (analyze_sentiment text) ''confidence'' =
     Some (PFloat (spec_confidence (present_count positive_words text)
                                   (present_count negative_words text))) \<and>
   analyze_sentiment (lower text) = analyze_sentiment text \<and>
   analyze_text clk \<lparr>text_of = text, analysis_type = ''sentiment'', options = opts\<rparr> =
     \<lparr>request_id = ''text_'' @ timestamp clk, status = ''completed'',
      result = Some (analyze_sentiment text),
      confidence = Some (spec_confidence (present_count positive_words text)
                                         (present_count negative_words text)),
      processing_time = Some (elapsed clk), error = None\<rparr> \<and>
   dict_get (analyze_sentiment ''I love this, it is great'') ''sentiment'' = Some (PStr ''positive'') \<and>
   dict_get (analyze_sentiment ''I love this, it is great'') ''confidence'' = Some (PFloat (fl (7 / 10))) \<and>
   count_in positive_words ''I LOVE this, it is GREAT'' = 0 \<and>
   dict_get (analyze_sentiment ''I LOVE this, it is GREAT'') ''sentiment'' = Some (PStr ''positive'') \<and>
   dict_get (analyze_sentiment ''I LOVE this, it is GREAT'') ''confidence'' = Some (PFloat (fl (7 / 10)))"
proof -
  have a: "dict_get (analyze_sentiment text) ''sentiment'' =
     Some (PStr (spec_label (present_count positive_words text) (present_count negative_words text)))"
    by (simp add: sentiment_label count_in_present spec_label_def)
  have b: "dict_get (analyze_sentiment text) ''confidence'' =
     Some (PFloat (spec_confidence (present_count positive_words text)
                                   (present_count negative_words text)))"
    by (auto simp add: sentiment_confidence count_in_present spec_confidence_def fmul_commute max_def)
  have c: "analyze_sentiment (lower text) = analyze_sentiment text"
    by (rule analyze_sentiment_lower)
  have d: "analyze_text clk \<lparr>text_of = text, analysis_type = ''sentiment'', options = opts\<rparr> =
     \<lparr>request_id = ''text_'' @ timestamp clk, status = ''completed'',
      result = Some (analyze_sentiment text),
      confidence = Some (spec_confidence (present_count positive_words text)
                                         (present_count negative_words text)),
      processing_time = Some (elapsed clk), error = None\<rparr>"
    by (simp add: analyze_text_def completed_def Let_def get_confidence_sentiment)
  have e: "dict_get (analyze_sentiment ''I love this, it is great'') ''sentiment'' = Some (PStr ''positive'')"
    by (simp add: sentiment_label ex1 ex2)
  have f: "dict_get (analyze_sentiment ''I love this, it is great'') ''confidence'' = Some (PFloat (fl (7 / 10)))"
    using conf_2 by (simp add: sentiment_confidence ex1 ex2)
  have g: "dict_get (analyze_sentiment ''I LOVE this, it is GREAT'') ''sentiment'' = Some (PStr ''positive'')"
    by (simp add: sentiment_label up_p up_n)
  have h: "dict_get (analyze_sentiment ''I LOVE this, it is GREAT'') ''confidence'' = Some (PFloat (fl (7 / 10)))"
    using conf_2 by (simp add: sentiment_confidence up_p up_n)
  from a b c d e f g h up_raw show ?thesis by blast
qed

text \<open>
  C10. The score fractions that \<open>analyze_sentiment\<close> returns are built from counts in
  which each word of a set adds 1 when it is a substring of the lower-cased text and 0
  otherwise, so a count is at most 6. In \<open>GOOD GOOD GOOD\<close> the word \<open>good\<close> occurs three
  times after lower-casing and not at all before; it counts once: the positive fraction
  is the double of 1/3 and the confidence is 0.6. The one-token text
  \<open>goodgreatbadawful\<close> has the scores 2, 2 and -3: the positive and negative fractions
  exceed 1 and the neutral fraction is negative.
\<close>

theorem sentiment_substring_counting:
  "dict_get (analyze_sentiment text) ''scores'' =
     Some (PDict
       [(''positive'', PFloat (fdiv (present_count positive_words text) (max (length (split text)) 1))),
        (''negative'', PFloat (fdiv (present_count negative_words text) (max (length (split text)) 1))),
        (''neutral'', PFloat (fsub 1 (fdiv (present_count positive_words text +
                                             present_count negative_words text)
                                        (max (length (split text)) 1))))]) \<and>
   present_count positive_words text =
     sum_list (map (\<lambda>w. if sublist w (lower text) then 1 else 0) positive_words) \<and>
   present_count negative_words text =
     sum_list (map (\<lambda>w. if sublist w (lower text) then 1 else 0) negative_words) \<and>
   present_count positive_words text \<le> 6 \<and> present_count negative_words text \<le> 6 \<and>
   occurrences ''good'' (lower ''GOOD GOOD GOOD'') = 3 \<and>
   count_in positive_words ''GOOD GOOD GOOD'' = 0 \<and>
   dict_get (analyze_sentiment ''GOOD GOOD GOOD'') ''scores'' =
     Some (PDict [(''positive'', PFloat (6004799503160661 / 18014398509481984)),
                  (''negative'', PFloat 0),
                  (''neutral'', PFloat (3002399751580331 / 4503599627370496))]) \<and>
   dict_get (analyze_sentiment ''GOOD GOOD GOOD'') ''confidence'' = Some (PFloat (fl (6 / 10))) \<and>
   length (split ''goodgreatbadawful'') = 1 \<and>
   dict_get (analyze_sentiment ''goodgreatbadawful'') ''scores'' =
     Some (PDict [(''positive'', PFloat 2), (''negative'', PFloat 2), (''neutral'', PFloat (- 3))]) \<and>
   (1 :: rat) < 2 \<and> (- 3 :: rat) < 0"
proof -
  have a: "dict_get (analyze_sentiment text) ''scores'' =
     Some (PDict
       [(''positive'', PFloat (fdiv (present_count positive_words text) (max (length (split text)) 1))),
        (''negative'', PFloat (fdiv (present_count negative_words text) (max (length (split text)) 1))),
        (''neutral'', PFloat (fsub 1 (fdiv (present_count positive_words text +
                                             present_count negative_words text)
                                        (max (length (split text)) 1))))])"
    unfolding count_in_present [symmetric] by (rule sentiment_scores)
  have b: "present_count positive_words text =
     sum_list (map (\<lambda>w. if sublist w (lower text) then 1 else 0) positive_words)"
    by (rule present_count_sum)
  have c: "present_count negative_words text =
     sum_list (map (\<lambda>w. if sublist w (lower text) then 1 else 0) negative_words)"
    by (rule present_count_sum)
  have d: "present_count positive_words text \<le> 6" "present_count negative_words text \<le> 6"
    using present_count_le [of positive_words "text"] present_count_le [of negative_words "text"]
    by (simp_all add: length_positive_words length_negative_words)
  have e: "dict_get (analyze_sentiment ''GOOD GOOD GOOD'') ''scores'' =
     Some (PDict [(''positive'', PFloat (6004799503160661 / 18014398509481984)),
                  (''negative'', PFloat 0),
                  (''neutral'', PFloat (3002399751580331 / 4503599627370496))])"
    using cx_a g3_neu fdiv_0_3 by (simp add: sentiment_scores g3_p g3_n g3_len)
  have f: "dict_get (analyze_sentiment ''GOOD GOOD GOOD'') ''confidence'' = Some (PFloat (fl (6 / 10)))"
    using conf_1 by (simp add: sentiment_confidence g3_p g3_n)
  have g: "dict_get (analyze_sentiment ''goodgreatbadawful'') ''scores'' =
     Some (PDict [(''positive'', PFloat 2), (''negative'', PFloat 2), (''neutral'', PFloat (- 3))])"
    by (simp add: sentiment_scores ex_tok ex_tok_p ex_tok_n fl_2 fl_m3)
  have h: "(1 :: rat) < 2 \<and> (- 3 :: rat) < 0" by simp
  from a b c d e f g h g3_occ g3_raw ex_tok show ?thesis by blast
qed

end
